theory Spec2Isabelle
  imports
    Complex_Main
    "HOL-Library.Char_ord"
    "HOL-Library.List_Lexorder"
    "HOL-Library.Multiset"
begin

section \<open>Data model (data\_pipeline/config.py)\<close>

text \<open>
  Python floats are modelled by \<^typ>\<open>real\<close>: arithmetic is exact, and the special
  values NaN and infinity do not occur. Python strings are \<^typ>\<open>string\<close>, ordered
  lexicographically by character code as Python orders \<open>str\<close>.
\<close>

datatype MetricType = GDP_GROWTH | INFLATION | UNEMPLOYMENT | INTEREST_RATE

text \<open>The \<open>.value\<close> of a member of the enum \<open>MetricType\<close>.\<close>

fun metric_value :: "MetricType \<Rightarrow> string" where
  "metric_value GDP_GROWTH = ''gdp_growth''"
| "metric_value INFLATION = ''inflation''"
| "metric_value UNEMPLOYMENT = ''unemployment''"
| "metric_value INTEREST_RATE = ''interest_rate''"

datatype ConfidenceLevel = HIGH | MEDIUM | LOW | SINGLE_SOURCE | NO_DATA

text \<open>
  A decoded JSON document, as \<open>response.json()\<close> returns it: \<open>None\<close>, \<open>bool\<close>,
  a number, \<open>str\<close>, \<open>list\<close> or \<open>dict\<close> with string keys (in document order).
\<close>

datatype json =
    JNull
  | JBool bool
  | JNum real
  | JStr string
  | JArr "json list"
  | JObj "(string \<times> json) list"

text \<open>
  The dataclasses \<open>MacroDataPoint\<close> and \<open>TriangulatedResult\<close>. Field names carry a
  prefix because both classes have fields \<open>metric\<close>, \<open>country\<close>, \<open>country_code\<close>
  and \<open>period\<close>.
\<close>

record MacroDataPoint =
  dp_source :: string
  dp_metric :: string
  dp_country :: string
  dp_country_code :: string
  dp_value :: "real option"
  dp_unit :: string
  dp_period :: string
  dp_retrieved_at :: string
  dp_raw_response :: "json option"
  dp_error :: "string option"

record TriangulatedResult =
  tr_metric :: string
  tr_country :: string
  tr_country_code :: string
  tr_period :: string
  tr_confidence :: ConfidenceLevel
  tr_consensus_value :: "real option"
  tr_fred_value :: "real option"
  tr_worldbank_value :: "real option"
  tr_oecd_value :: "real option"
  tr_explanation :: string
  tr_sources_used :: "string list"
  tr_disagreement_details :: "string option"

section \<open>Formatting numbers\<close>

text \<open>Decimal digits of a natural number, as \<open>str(n)\<close> prints them.\<close>

definition digit_char :: "nat \<Rightarrow> char" where
  "digit_char d = char_of (48 + d)"

fun str_nat :: "nat \<Rightarrow> string" where
  "str_nat n = (if n < 10 then [digit_char n] else str_nat (n div 10) @ [digit_char (n mod 10)])"

declare str_nat.simps [simp del]

definition str_int :: "int \<Rightarrow> string" where
  "str_int i = (if i < 0 then ''-'' @ str_nat (nat (- i)) else str_nat (nat i))"

text \<open>
  The format specification \<open>:.2f\<close>: two decimals, the magnitude rounded to the nearest
  hundredth with ties going to the even neighbour, and the sign of a negative number kept
  (\<open>-0.001\<close> prints as \<open>-0.00\<close>).
\<close>

definition round_half_even :: "real \<Rightarrow> int" where
  "round_half_even y =
     (let k = \<lfloor>y\<rfloor>; f = y - of_int k
      in if f < 1 / 2 then k
         else if 1 / 2 < f then k + 1
         else if even k then k else k + 1)"

definition fmt2f :: "real \<Rightarrow> string" where
  "fmt2f x =
     (let h = nat (round_half_even (\<bar>x\<bar> * 100))
      in (if x < 0 then ''-'' else '''')
         @ str_nat (h div 100) @ ''.''
         @ [digit_char ((h mod 100) div 10), digit_char (h mod 10)])"

section \<open>The triangulation engine (data\_pipeline/triangulation.py)\<close>

subsection \<open>Agreement of two values\<close>

text \<open>\<open>_values_agree\<close>; the first argument is \<open>self.tolerance_percent\<close>.\<close>

definition values_agree :: "real \<Rightarrow> real \<Rightarrow> real \<Rightarrow> bool" where
  "values_agree tolerance_percent val1 val2 =
     (if val1 = 0 \<and> val2 = 0 then True
      else if val1 = 0 \<or> val2 = 0 then \<bar>val1 - val2\<bar> \<le> tolerance_percent
      else
        (let avg = (\<bar>val1\<bar> + \<bar>val2\<bar>) / 2;
             diff_percent = \<bar>val1 - val2\<bar> / avg * 100
         in diff_percent \<le> tolerance_percent))"

subsection \<open>Consensus value\<close>

text \<open>
  \<open>_calculate_consensus\<close>: \<open>None\<close> for the empty list, otherwise the median of the
  sorted values. Both indices are within the list, since \<open>n\<close> is positive, and at least
  two when it is even.
\<close>

definition calculate_consensus :: "real list \<Rightarrow> real option" where
  "calculate_consensus vals =
     (if vals = [] then None
      else
        (let sorted_values = sort vals;
             n = length sorted_values
         in if n mod 2 = 0
            then Some ((sorted_values ! (n div 2 - 1) + sorted_values ! (n div 2)) / 2)
            else Some (sorted_values ! (n div 2))))"

subsection \<open>Confidence level\<close>

text \<open>
  \<open>_determine_confidence\<close>. The list \<open>valid_values\<close> holds the named values that are
  present, in the order FRED, World Bank, OECD; with three entries these are exactly
  \<open>fred_val\<close>, \<open>wb_val\<close> and \<open>oecd_val\<close>, which the last branch reads.
  \<open>sum\<close> of the three booleans counts the pairs that agree.
\<close>

definition determine_confidence ::
  "real \<Rightarrow> real option \<Rightarrow> real option \<Rightarrow> real option \<Rightarrow> ConfidenceLevel \<times> string" where
  "determine_confidence tolerance_percent fred_val wb_val oecd_val =
     (let valid_values =
            (case fred_val of None \<Rightarrow> [] | Some v \<Rightarrow> [(''FRED'', v)])
          @ (case wb_val of None \<Rightarrow> [] | Some v \<Rightarrow> [(''World Bank'', v)])
          @ (case oecd_val of None \<Rightarrow> [] | Some v \<Rightarrow> [(''OECD'', v)])
      in case valid_values of
           [] \<Rightarrow> (NO_DATA, ''No data available from any source.'')
         | [(src, val)] \<Rightarrow>
             (SINGLE_SOURCE, ''Only '' @ src @ '' provided data ('' @ fmt2f val @ ''%).'')
         | [(src1, val1), (src2, val2)] \<Rightarrow>
             (if values_agree tolerance_percent val1 val2
              then (MEDIUM,
                    src1 @ '' ('' @ fmt2f val1 @ ''%) and '' @ src2 @ '' ('' @ fmt2f val2
                    @ ''%) agree within tolerance. ''
                    @ ''Third source unavailable for full triangulation.'')
              else (LOW,
                    src1 @ '' ('' @ fmt2f val1 @ ''%) and '' @ src2 @ '' ('' @ fmt2f val2
                    @ ''%) disagree. ''
                    @ ''Third source unavailable for tie-breaker.''))
         | (_, fred_v) # (_, wb_v) # (_, oecd_v) # _ \<Rightarrow>
             (let fred_wb_agree = values_agree tolerance_percent fred_v wb_v;
                  fred_oecd_agree = values_agree tolerance_percent fred_v oecd_v;
                  wb_oecd_agree = values_agree tolerance_percent wb_v oecd_v;
                  agreements =
                    length (filter id [fred_wb_agree, fred_oecd_agree, wb_oecd_agree])
              in if agreements = 3
                 then (HIGH,
                       ''All three sources agree: FRED ('' @ fmt2f fred_v @ ''%), ''
                       @ ''World Bank ('' @ fmt2f wb_v @ ''%), OECD ('' @ fmt2f oecd_v
                       @ ''%).'')
                 else if agreements \<ge> 1
                 then (if fred_wb_agree
                       then (MEDIUM,
                             ''FRED ('' @ fmt2f fred_v @ ''%) and World Bank (''
                             @ fmt2f wb_v @ ''%) agree. ''
                             @ ''OECD ('' @ fmt2f oecd_v
                             @ ''%) differs but serves as validation.'')
                       else if fred_oecd_agree
                       then (MEDIUM,
                             ''FRED ('' @ fmt2f fred_v @ ''%) and OECD (''
                             @ fmt2f oecd_v @ ''%) agree. ''
                             @ ''World Bank ('' @ fmt2f wb_v @ ''%) differs.'')
                       else (MEDIUM,
                             ''World Bank ('' @ fmt2f wb_v @ ''%) and OECD (''
                             @ fmt2f oecd_v @ ''%) agree. ''
                             @ ''FRED ('' @ fmt2f fred_v @ ''%) differs.''))
                 else (LOW,
                       ''All sources disagree significantly: FRED ('' @ fmt2f fred_v
                       @ ''%), '' @ ''World Bank ('' @ fmt2f wb_v @ ''%), OECD (''
                       @ fmt2f oecd_v @ ''%). ''
                       @ ''Exercise caution with this data.'')))"

subsection \<open>Country names (data\_pipeline/mappings.py)\<close>

text \<open>\<open>d.get(k, dflt)\<close> on a dictionary held as an association list.\<close>

definition dict_get :: "('k \<times> 'v) list \<Rightarrow> 'k \<Rightarrow> 'v \<Rightarrow> 'v" where
  "dict_get d k dflt = (case map_of d k of None \<Rightarrow> dflt | Some v \<Rightarrow> v)"

definition COUNTRY_MAPPINGS :: "(string \<times> (string \<times> string) list) list" where
  "COUNTRY_MAPPINGS =
     [(''USA'', [(''name'', ''United States''), (''fred'', ''USA''), (''wb'', ''USA''),
                 (''oecd'', ''USA'')]),
      (''IND'', [(''name'', ''India''), (''fred'', ''IND''), (''wb'', ''IND''),
                 (''oecd'', ''IND'')]),
      (''EUU'', [(''name'', ''European Union''), (''fred'', ''EUU''), (''wb'', ''EUU''),
                 (''oecd'', ''EA20'')]),
      (''CHN'', [(''name'', ''China''), (''fred'', ''CHN''), (''wb'', ''CHN''),
                 (''oecd'', ''CHN'')])]"

subsection \<open>Triangulation\<close>

text \<open>
  The exceptions that can leave a provider client (it catches only
  \<open>requests.RequestException\<close>). \<open>IllTyped\<close> is not a Python exception: it marks a
  response from which the client would build a \<open>MacroDataPoint\<close> whose \<open>period\<close> is
  not a \<open>str\<close>, which the record above cannot hold.
\<close>

datatype exn = KeyError | TypeError | ValueError | IndexError | AttributeError | IllTyped

text \<open>
  The engine holds its tolerance and the three provider clients; a client is its
  \<open>fetch_metric\<close> method, which returns a data point or raises.
\<close>

type_synonym client =
  "MetricType \<Rightarrow> string \<Rightarrow> int option \<Rightarrow> int option \<Rightarrow> exn + MacroDataPoint"

record TriangulationEngine =
  tolerance_percent :: real
  fred_client :: client
  worldbank_client :: client
  oecd_client :: client

text \<open>
  The body of \<open>triangulate\<close> after the three fetches (the calls to the logger have no
  effect on the result). \<open>max\<close> of a non-empty list of strings is its greatest element.
\<close>

definition triangulate_result ::
  "real \<Rightarrow> MetricType \<Rightarrow> string \<Rightarrow> MacroDataPoint \<Rightarrow> MacroDataPoint \<Rightarrow> MacroDataPoint
     \<Rightarrow> TriangulatedResult" where
  "triangulate_result tol metric country_code fred_data wb_data oecd_data =
     (let (confidence, explanation) =
            determine_confidence tol (dp_value fred_data) (dp_value wb_data)
              (dp_value oecd_data);
          valid_values =
            List.map_filter id [dp_value fred_data, dp_value wb_data, dp_value oecd_data];
          consensus = calculate_consensus valid_values;
          periods =
            filter (\<lambda>p. p \<noteq> ''N/A'') (map dp_period [fred_data, wb_data, oecd_data]);
          period = (case periods of [] \<Rightarrow> ''N/A'' | p # ps \<Rightarrow> foldl max p ps);
          sources_used =
            (if dp_value fred_data \<noteq> None then [''FRED''] else [])
            @ (if dp_value wb_data \<noteq> None then [''World Bank''] else [])
            @ (if dp_value oecd_data \<noteq> None then [''OECD''] else []);
          country_name =
            dict_get (dict_get COUNTRY_MAPPINGS country_code []) ''name'' country_code
      in \<lparr> tr_metric = metric_value metric,
           tr_country = country_name,
           tr_country_code = country_code,
           tr_period = period,
           tr_confidence = confidence,
           tr_consensus_value = consensus,
           tr_fred_value = dp_value fred_data,
           tr_worldbank_value = dp_value wb_data,
           tr_oecd_value = dp_value oecd_data,
           tr_explanation = explanation,
           tr_sources_used = sources_used,
           tr_disagreement_details =
             (if confidence \<in> set [HIGH, MEDIUM] then None else Some explanation) \<rparr>)"

text \<open>
  \<open>triangulate\<close>: the clients are called in the order FRED, World Bank, OECD, and an
  exception raised by one of them is not caught here.
\<close>

definition triangulate ::
  "TriangulationEngine \<Rightarrow> MetricType \<Rightarrow> string \<Rightarrow> int option \<Rightarrow> int option
     \<Rightarrow> exn + TriangulatedResult" where
  "triangulate self metric country_code start_year end_year =
     (case fred_client self metric country_code start_year end_year of
        Inl e \<Rightarrow> Inl e
      | Inr fred_data \<Rightarrow>
     (case worldbank_client self metric country_code start_year end_year of
        Inl e \<Rightarrow> Inl e
      | Inr wb_data \<Rightarrow>
     (case oecd_client self metric country_code start_year end_year of
        Inl e \<Rightarrow> Inl e
      | Inr oecd_data \<Rightarrow>
          Inr (triangulate_result (tolerance_percent self) metric country_code
                 fred_data wb_data oecd_data))))"

section \<open>Python operations on decoded JSON\<close>

text \<open>
  The provider clients read the decoded response with Python's dynamic operations; each
  of them raises on operands of the wrong type, which the model returns as \<open>Inl\<close>.
  Strings are taken as sequences of single-byte characters.
\<close>

text \<open>Truth value of an object, as \<open>if x:\<close> and \<open>not x\<close> test it.\<close>

fun truthy :: "json \<Rightarrow> bool" where
  "truthy JNull = False"
| "truthy (JBool b) = b"
| "truthy (JNum r) = (r \<noteq> 0)"
| "truthy (JStr s) = (s \<noteq> [])"
| "truthy (JArr xs) = (xs \<noteq> [])"
| "truthy (JObj kvs) = (kvs \<noteq> [])"

text \<open>\<open>sub in s\<close> on two strings: \<open>sub\<close> occurs in \<open>s\<close> as a contiguous block.\<close>

fun str_contains :: "string \<Rightarrow> string \<Rightarrow> bool" where
  "str_contains [] sub = (sub = [])"
| "str_contains (c # cs) sub = (take (length sub) (c # cs) = sub \<or> str_contains cs sub)"

text \<open>
  \<open>key in x\<close> for a string \<open>key\<close>: a key of the dictionary, an element of the list, a
  substring of the string; \<open>TypeError\<close> on \<open>None\<close>, booleans and numbers.
\<close>

fun py_contains :: "json \<Rightarrow> string \<Rightarrow> exn + bool" where
  "py_contains (JObj kvs) key = Inr (key \<in> set (map fst kvs))"
| "py_contains (JArr xs) key = Inr (JStr key \<in> set xs)"
| "py_contains (JStr s) key = Inr (str_contains s key)"
| "py_contains JNull key = Inl TypeError"
| "py_contains (JBool b) key = Inl TypeError"
| "py_contains (JNum r) key = Inl TypeError"

text \<open>\<open>x[key]\<close> for a string \<open>key\<close>: only a dictionary can be subscripted by a string.\<close>

fun py_getitem :: "json \<Rightarrow> string \<Rightarrow> exn + json" where
  "py_getitem (JObj kvs) key = (case map_of kvs key of None \<Rightarrow> Inl KeyError | Some v \<Rightarrow> Inr v)"
| "py_getitem JNull key = Inl TypeError"
| "py_getitem (JBool b) key = Inl TypeError"
| "py_getitem (JNum r) key = Inl TypeError"
| "py_getitem (JStr s) key = Inl TypeError"
| "py_getitem (JArr xs) key = Inl TypeError"

text \<open>
  \<open>xs[i]\<close> on a sequence: a negative index counts from the end, and an index outside the
  sequence raises \<open>IndexError\<close>.
\<close>

definition seq_index :: "'a list \<Rightarrow> int \<Rightarrow> exn + 'a" where
  "seq_index xs i =
     (if 0 \<le> i \<and> i < int (length xs) then Inr (xs ! nat i)
      else if i < 0 \<and> - int (length xs) \<le> i then Inr (xs ! nat (int (length xs) + i))
      else Inl IndexError)"

text \<open>
  \<open>x[i]\<close> for an integer \<open>i\<close>: an element of a list, a character of a string,
  \<open>KeyError\<close> on a dictionary (its keys are strings), \<open>TypeError\<close> otherwise.
\<close>

fun py_index :: "json \<Rightarrow> int \<Rightarrow> exn + json" where
  "py_index (JArr xs) i = seq_index xs i"
| "py_index (JStr s) i = (case seq_index s i of Inl e \<Rightarrow> Inl e | Inr c \<Rightarrow> Inr (JStr [c]))"
| "py_index (JObj kvs) i = Inl KeyError"
| "py_index JNull i = Inl TypeError"
| "py_index (JBool b) i = Inl TypeError"
| "py_index (JNum r) i = Inl TypeError"

text \<open>\<open>x.get(key, dflt)\<close>: only a dictionary has the method.\<close>

fun py_get :: "json \<Rightarrow> string \<Rightarrow> json \<Rightarrow> exn + json" where
  "py_get (JObj kvs) key dflt = Inr (dict_get kvs key dflt)"
| "py_get JNull key dflt = Inl AttributeError"
| "py_get (JBool b) key dflt = Inl AttributeError"
| "py_get (JNum r) key dflt = Inl AttributeError"
| "py_get (JStr s) key dflt = Inl AttributeError"
| "py_get (JArr xs) key dflt = Inl AttributeError"

text \<open>
  The elements a \<open>for\<close> loop visits: the elements of a list, the keys of a dictionary,
  the characters of a string; \<open>TypeError\<close> otherwise.
\<close>

fun py_iter :: "json \<Rightarrow> exn + json list" where
  "py_iter (JArr xs) = Inr xs"
| "py_iter (JObj kvs) = Inr (map (\<lambda>kv. JStr (fst kv)) kvs)"
| "py_iter (JStr s) = Inr (map (\<lambda>c. JStr [c]) s)"
| "py_iter JNull = Inl TypeError"
| "py_iter (JBool b) = Inl TypeError"
| "py_iter (JNum r) = Inl TypeError"

text \<open>\<open>len(x)\<close>.\<close>

fun py_len :: "json \<Rightarrow> exn + int" where
  "py_len (JArr xs) = Inr (int (length xs))"
| "py_len (JObj kvs) = Inr (int (length kvs))"
| "py_len (JStr s) = Inr (int (length s))"
| "py_len JNull = Inl TypeError"
| "py_len (JBool b) = Inl TypeError"
| "py_len (JNum r) = Inl TypeError"

text \<open>
  \<open>float(x)\<close>: a number is kept, a boolean is 0 or 1, a string is parsed
  (\<open>ValueError\<close> when it is not a number), anything else is a \<open>TypeError\<close>. The parser
  of strings is a parameter, \<open>None\<close> standing for \<open>ValueError\<close>.
\<close>

fun py_float :: "(string \<Rightarrow> real option) \<Rightarrow> json \<Rightarrow> exn + real" where
  "py_float parse (JNum r) = Inr r"
| "py_float parse (JBool b) = Inr (if b then 1 else 0)"
| "py_float parse (JStr s) = (case parse s of None \<Rightarrow> Inl ValueError | Some r \<Rightarrow> Inr r)"
| "py_float parse JNull = Inl TypeError"
| "py_float parse (JArr xs) = Inl TypeError"
| "py_float parse (JObj kvs) = Inl TypeError"

text \<open>
  The value stored in the field \<open>period\<close>, which the dataclass declares \<open>str\<close>.
  Python does not check the declaration: where the response holds something other than a
  string there, the client still returns its data point. The record above has no such
  point, and the model marks the call with \<open>IllTyped\<close> instead.
\<close>

fun as_period :: "json \<Rightarrow> exn + string" where
  "as_period (JStr s) = Inr s"
| "as_period JNull = Inl IllTyped"
| "as_period (JBool b) = Inl IllTyped"
| "as_period (JNum r) = Inl IllTyped"
| "as_period (JArr xs) = Inl IllTyped"
| "as_period (JObj kvs) = Inl IllTyped"

subsection \<open>Plain decimal literals\<close>

text \<open>
  Parsers for the literals the providers send: an optional sign, digits, and for a float
  an optional fraction. They serve as the string parsers of \<open>float\<close> and \<open>int\<close> in the
  examples; Python's own parsers accept more (surrounding blanks, exponents, underscores).
\<close>

definition is_digit :: "char \<Rightarrow> bool" where
  "is_digit c = (48 \<le> (of_char c :: nat) \<and> (of_char c :: nat) \<le> 57)"

definition digits_value :: "string \<Rightarrow> nat" where
  "digits_value s = foldl (\<lambda>a c. 10 * a + ((of_char c :: nat) - 48)) 0 s"

definition decimal_nat :: "string \<Rightarrow> nat option" where
  "decimal_nat s = (if s \<noteq> [] \<and> list_all is_digit s then Some (digits_value s) else None)"

definition unsigned_float :: "string \<Rightarrow> real option" where
  "unsigned_float s =
     (let ip = takeWhile (\<lambda>c. c \<noteq> CHR ''.'') s;
          fp = drop (length ip + 1) s
      in if list_all is_digit ip \<and> list_all is_digit fp \<and> (ip \<noteq> [] \<or> fp \<noteq> [])
            \<and> (length ip < length s \<or> fp = [])
         then Some (real (digits_value ip) + real (digits_value fp) / 10 ^ length fp)
         else None)"

definition decimal_float :: "string \<Rightarrow> real option" where
  "decimal_float s =
     (case s of
        [] \<Rightarrow> None
      | c # cs \<Rightarrow>
          if c = CHR ''-'' then map_option uminus (unsigned_float cs)
          else if c = CHR ''+'' then unsigned_float cs
          else unsigned_float s)"

definition decimal_int :: "string \<Rightarrow> int option" where
  "decimal_int s =
     (case s of
        [] \<Rightarrow> None
      | c # cs \<Rightarrow>
          if c = CHR ''-'' then map_option (\<lambda>n. - int n) (decimal_nat cs)
          else if c = CHR ''+'' then map_option int (decimal_nat cs)
          else map_option int (decimal_nat s))"

section \<open>The provider clients (data\_pipeline/clients)\<close>

subsection \<open>Metric mappings (data\_pipeline/mappings.py)\<close>

text \<open>
  \<open>METRIC_MAPPINGS[metric]["fred"]\<close>, \<open>["worldbank"]\<close> and \<open>["oecd"]\<close>. The table has
  an entry for each of the four metrics, so each is a function of the metric.
\<close>

fun METRIC_MAPPINGS_fred :: "MetricType \<Rightarrow> (string \<times> string) list" where
  "METRIC_MAPPINGS_fred GDP_GROWTH =
     [(''USA'', ''A191RL1Q225SBEA''), (''IND'', ''INDGDPRQPSMEI''),
      (''EUU'', ''CLVMNACSCAB1GQEA19''), (''CHN'', ''CHNGDPRQPSMEI''),
      (''default'', ''CLVMNACSCAB1GQ{country}'')]"
| "METRIC_MAPPINGS_fred INFLATION =
     [(''USA'', ''CPIAUCSL''), (''IND'', ''INDCPIALLMINMEI''),
      (''EUU'', ''CP0000EZ19M086NEST''), (''CHN'', ''CHNCPIALLMINMEI''),
      (''default'', ''CPALTT01{country}M659N'')]"
| "METRIC_MAPPINGS_fred UNEMPLOYMENT =
     [(''USA'', ''UNRATE''), (''IND'', ''LMUNRRTTINQ156S''),
      (''EUU'', ''LRHUTTTTEZM156S''), (''CHN'', ''LMUNRRTTCNM156S''),
      (''default'', ''LRUN64TT{country}Q156S'')]"
| "METRIC_MAPPINGS_fred INTEREST_RATE =
     [(''USA'', ''FEDFUNDS''), (''IND'', ''INDIRLTLT01STM''),
      (''EUU'', ''ECBMRRFR''), (''CHN'', ''INTDSRCNM193N''),
      (''default'', ''IR3TIB01{country}M156N'')]"

fun METRIC_MAPPINGS_worldbank :: "MetricType \<Rightarrow> string" where
  "METRIC_MAPPINGS_worldbank GDP_GROWTH = ''NY.GDP.MKTP.KD.ZG''"
| "METRIC_MAPPINGS_worldbank INFLATION = ''FP.CPI.TOTL.ZG''"
| "METRIC_MAPPINGS_worldbank UNEMPLOYMENT = ''SL.UEM.TOTL.ZS''"
| "METRIC_MAPPINGS_worldbank INTEREST_RATE = ''FR.INR.RINR''"

fun METRIC_MAPPINGS_oecd :: "MetricType \<Rightarrow> string" where
  "METRIC_MAPPINGS_oecd GDP_GROWTH = ''QNA/B1_GE.{country}.VOBARSA.Q''"
| "METRIC_MAPPINGS_oecd INFLATION = ''PRICES_CPI/CPALTT01.{country}.GP.A''"
| "METRIC_MAPPINGS_oecd UNEMPLOYMENT = ''LFS_SEXAGE_I_R/{country}.MW.Y15T64.UR.A''"
| "METRIC_MAPPINGS_oecd INTEREST_RATE = ''MEI_FIN/{country}.IRSTCI.ST.M''"

text \<open>
  \<open>template.format(country=c)\<close> for the templates of the table, whose only braces are
  those of the field \<open>{country}\<close>: each occurrence of the field is replaced by \<open>c\<close>, and
  the inserted text is not scanned again.
\<close>

function format_country :: "string \<Rightarrow> string \<Rightarrow> string" where
  "format_country t c =
     (case t of
        [] \<Rightarrow> []
      | x # xs \<Rightarrow>
          if take 9 t = ''{country}'' then c @ format_country (drop 9 t) c
          else x # format_country xs c)"
  by pat_completeness auto
termination
  by (relation "measure (\<lambda>(t, c). length t)") auto

declare format_country.simps [simp del]

subsection \<open>The HTTP layer (data\_pipeline/http\_client.py)\<close>

text \<open>
  A GET request as the clients pass it to \<open>RobustHTTPClient.get\<close>, and what the call
  followed by \<open>response.json()\<close> yields: the decoded document, or an exception of class
  \<open>requests.RequestException\<close> with its message (a transport failure, exhausted
  retries, or the error status that \<open>raise_for_status\<close> reports).
\<close>

record request =
  req_url :: string
  req_params :: "(string \<times> json) list"
  req_headers :: "(string \<times> string) list"

datatype http_outcome = RequestException string | Response json

text \<open>
  What a client reads from outside: the HTTP layer, the clock (\<open>datetime.utcnow\<close> as
  \<open>_get_current_timestamp\<close> formats it, and the current year), and Python's parsers of
  strings in \<open>float\<close> and \<open>int\<close> (\<open>None\<close> for \<open>ValueError\<close>).
\<close>

record runtime =
  http_get :: "request \<Rightarrow> http_outcome"
  utc_now :: string
  current_year :: int
  float_of_str :: "string \<Rightarrow> real option"
  int_of_str :: "string \<Rightarrow> int option"

text \<open>Sequencing of steps that may raise.\<close>

fun and_then :: "exn + 'a \<Rightarrow> ('a \<Rightarrow> exn + 'b) \<Rightarrow> exn + 'b" where
  "and_then (Inl e) f = Inl e"
| "and_then (Inr x) f = f x"

text \<open>
  The constructor call \<open>MacroDataPoint(source=self.source_name, metric=metric.value,
  country=country_info.get("name", country_code), country_code=country_code, value=...,
  unit="percent", period=..., retrieved_at=self._get_current_timestamp(),
  raw_response=..., error=...)\<close> that every return of the clients makes.
\<close>

definition make_point ::
  "runtime \<Rightarrow> string \<Rightarrow> MetricType \<Rightarrow> (string \<times> string) list \<Rightarrow> string
     \<Rightarrow> real option \<Rightarrow> string \<Rightarrow> json option \<Rightarrow> string option \<Rightarrow> MacroDataPoint" where
  "make_point rt source_name metric country_info country_code v p raw err =
     \<lparr> dp_source = source_name,
       dp_metric = metric_value metric,
       dp_country = dict_get country_info ''name'' country_code,
       dp_country_code = country_code,
       dp_value = v,
       dp_unit = ''percent'',
       dp_period = p,
       dp_retrieved_at = utc_now rt,
       dp_raw_response = raw,
       dp_error = err \<rparr>"

subsection \<open>FRED (clients/fred.py)\<close>

text \<open>\<open>FREDClient._get_series_id\<close>.\<close>

definition FREDClient_get_series_id :: "MetricType \<Rightarrow> string \<Rightarrow> string" where
  "FREDClient_get_series_id metric country_code =
     (let metric_config = METRIC_MAPPINGS_fred metric
      in case map_of metric_config country_code of
           Some series_id \<Rightarrow> series_id
         | None \<Rightarrow> format_country (dict_get metric_config ''default'' []) country_code)"

text \<open>
  The loop over the observations: the value and date of the first observation whose
  value is not the string \<open>.\<close>, or \<open>None\<close> when the loop runs to its end.
\<close>

fun fred_first_observation ::
  "(string \<Rightarrow> real option) \<Rightarrow> json list \<Rightarrow> exn + (real \<times> string) option" where
  "fred_first_observation parse [] = Inr None"
| "fred_first_observation parse (obs # rest) =
     and_then (py_getitem obs ''value'') (\<lambda>v.
       if v \<noteq> JStr ''.''
       then and_then (py_float parse v) (\<lambda>x.
            and_then (py_getitem obs ''date'') (\<lambda>d.
            and_then (as_period d) (\<lambda>p. Inr (Some (x, p)))))
       else fred_first_observation parse rest)"

text \<open>
  \<open>FREDClient.fetch_metric\<close>, with the client's \<open>api_key\<close> as second argument. The
  result is the list of requests issued and the data point returned or exception raised.
\<close>

definition FREDClient_fetch_metric ::
  "runtime \<Rightarrow> string option \<Rightarrow> MetricType \<Rightarrow> string \<Rightarrow> int option \<Rightarrow> int option
     \<Rightarrow> request list \<times> (exn + MacroDataPoint)" where
  "FREDClient_fetch_metric rt api_key metric country_code start_year end_year =
     (let series_id = FREDClient_get_series_id metric country_code;
          country_info = dict_get COUNTRY_MAPPINGS country_code [(''name'', country_code)];
          point = make_point rt ''FRED'' metric country_info country_code;
          params =
            [(''series_id'', JStr series_id),
             (''api_key'', (case api_key of None \<Rightarrow> JNull | Some k \<Rightarrow> JStr k)),
             (''file_type'', JStr ''json''),
             (''sort_order'', JStr ''desc''),
             (''limit'', JNum 10)]
            @ (case start_year of
                 None \<Rightarrow> []
               | Some y \<Rightarrow>
                   if y \<noteq> 0 then [(''observation_start'', JStr (str_int y @ ''-01-01''))]
                   else [])
            @ (case end_year of
                 None \<Rightarrow> []
               | Some y \<Rightarrow>
                   if y \<noteq> 0 then [(''observation_end'', JStr (str_int y @ ''-12-31''))]
                   else []);
          req = \<lparr> req_url = ''https://api.stlouisfed.org/fred'' @ ''/series/observations'',
                  req_params = params, req_headers = [] \<rparr>
      in ([req],
          case http_get rt req of
            RequestException msg \<Rightarrow> Inr (point None ''N/A'' None (Some msg))
          | Response data \<Rightarrow>
              and_then (py_contains data ''observations'') (\<lambda>present.
                if \<not> present
                then Inr (point None ''N/A'' None (Some ''No observations found''))
                else and_then (py_getitem data ''observations'') (\<lambda>observations.
                  if \<not> truthy observations
                  then Inr (point None ''N/A'' None (Some ''No observations found''))
                  else and_then (py_iter observations) (\<lambda>items.
                       and_then (fred_first_observation (float_of_str rt) items) (\<lambda>found.
                         case found of
                           Some (x, p) \<Rightarrow> Inr (point (Some x) p (Some data) None)
                         | None \<Rightarrow>
                             Inr (point None ''N/A'' None
                                    (Some ''All observations are missing values''))))))))"

text \<open>
  The two methods once more, with the table \<open>METRIC_MAPPINGS[.]["fred"]\<close> of the module
  \<open>mappings\<close> that they read as an argument. At the table of the module they are the
  methods above.
\<close>

definition FREDClient_get_series_id_in ::
  "(MetricType \<Rightarrow> (string \<times> string) list) \<Rightarrow> MetricType \<Rightarrow> string \<Rightarrow> string" where
  "FREDClient_get_series_id_in fred_mappings metric country_code =
     (let metric_config = fred_mappings metric
      in case map_of metric_config country_code of
           Some series_id \<Rightarrow> series_id
         | None \<Rightarrow> format_country (dict_get metric_config ''default'' []) country_code)"

definition FREDClient_fetch_metric_in ::
  "(MetricType \<Rightarrow> (string \<times> string) list) \<Rightarrow> runtime \<Rightarrow> string option \<Rightarrow> MetricType
     \<Rightarrow> string \<Rightarrow> int option \<Rightarrow> int option \<Rightarrow> request list \<times> (exn + MacroDataPoint)" where
  "FREDClient_fetch_metric_in fred_mappings rt api_key metric country_code start_year end_year =
     (let series_id = FREDClient_get_series_id_in fred_mappings metric country_code;
          country_info = dict_get COUNTRY_MAPPINGS country_code [(''name'', country_code)];
          point = make_point rt ''FRED'' metric country_info country_code;
          params =
            [(''series_id'', JStr series_id),
             (''api_key'', (case api_key of None \<Rightarrow> JNull | Some k \<Rightarrow> JStr k)),
             (''file_type'', JStr ''json''),
             (''sort_order'', JStr ''desc''),
             (''limit'', JNum 10)]
            @ (case start_year of
                 None \<Rightarrow> []
               | Some y \<Rightarrow>
                   if y \<noteq> 0 then [(''observation_start'', JStr (str_int y @ ''-01-01''))]
                   else [])
            @ (case end_year of
                 None \<Rightarrow> []
               | Some y \<Rightarrow>
                   if y \<noteq> 0 then [(''observation_end'', JStr (str_int y @ ''-12-31''))]
                   else []);
          req = \<lparr> req_url = ''https://api.stlouisfed.org/fred'' @ ''/series/observations'',
                  req_params = params, req_headers = [] \<rparr>
      in ([req],
          case http_get rt req of
            RequestException msg \<Rightarrow> Inr (point None ''N/A'' None (Some msg))
          | Response data \<Rightarrow>
              and_then (py_contains data ''observations'') (\<lambda>present.
                if \<not> present
                then Inr (point None ''N/A'' None (Some ''No observations found''))
                else and_then (py_getitem data ''observations'') (\<lambda>observations.
                  if \<not> truthy observations
                  then Inr (point None ''N/A'' None (Some ''No observations found''))
                  else and_then (py_iter observations) (\<lambda>items.
                       and_then (fred_first_observation (float_of_str rt) items) (\<lambda>found.
                         case found of
                           Some (x, p) \<Rightarrow> Inr (point (Some x) p (Some data) None)
                         | None \<Rightarrow>
                             Inr (point None ''N/A'' None
                                    (Some ''All observations are missing values''))))))))"


subsection \<open>World Bank (clients/worldbank.py)\<close>

text \<open>
  The loop over the observations: the value and date of the first observation whose
  \<open>value\<close> is not \<open>None\<close>.
\<close>

fun worldbank_first_observation ::
  "(string \<Rightarrow> real option) \<Rightarrow> json list \<Rightarrow> exn + (real \<times> string) option" where
  "worldbank_first_observation parse [] = Inr None"
| "worldbank_first_observation parse (obs # rest) =
     and_then (py_get obs ''value'' JNull) (\<lambda>v.
       if v \<noteq> JNull
       then and_then (py_float parse v) (\<lambda>x.
            and_then (py_get obs ''date'' (JStr ''N/A'')) (\<lambda>d.
            and_then (as_period d) (\<lambda>p. Inr (Some (x, p)))))
       else worldbank_first_observation parse rest)"

text \<open>\<open>x or y\<close> on an optional year: \<open>x\<close> unless it is \<open>None\<close> or zero.\<close>

definition year_or :: "int option \<Rightarrow> int \<Rightarrow> int" where
  "year_or x y = (case x of None \<Rightarrow> y | Some v \<Rightarrow> if v \<noteq> 0 then v else y)"

text \<open>\<open>WorldBankClient.fetch_metric\<close>.\<close>

definition WorldBankClient_fetch_metric ::
  "runtime \<Rightarrow> MetricType \<Rightarrow> string \<Rightarrow> int option \<Rightarrow> int option
     \<Rightarrow> request list \<times> (exn + MacroDataPoint)" where
  "WorldBankClient_fetch_metric rt metric country_code start_year end_year =
     (let indicator = METRIC_MAPPINGS_worldbank metric;
          country_info = dict_get COUNTRY_MAPPINGS country_code [(''name'', country_code)];
          wb_country = dict_get country_info ''wb'' country_code;
          point = make_point rt ''World Bank'' metric country_info country_code;
          date_range =
            str_int (year_or start_year (current_year rt - 5)) @ '':''
            @ str_int (year_or end_year (current_year rt));
          params =
            [(''format'', JStr ''json''), (''per_page'', JNum 10),
             (''date'', JStr date_range)];
          req = \<lparr> req_url = ''https://api.worldbank.org/v2'' @ ''/country/'' @ wb_country
                            @ ''/indicator/'' @ indicator,
                  req_params = params, req_headers = [] \<rparr>
      in ([req],
          case http_get rt req of
            RequestException msg \<Rightarrow> Inr (point None ''N/A'' None (Some msg))
          | Response data \<Rightarrow>
              (case data of
                 JArr elems \<Rightarrow>
                   if length elems < 2
                   then Inr (point None ''N/A'' None (Some ''Invalid API response format''))
                   else and_then (py_index data 1) (\<lambda>observations.
                     if \<not> truthy observations
                     then Inr (point None ''N/A'' None (Some ''No data available''))
                     else and_then (py_iter observations) (\<lambda>items.
                          and_then (worldbank_first_observation (float_of_str rt) items)
                            (\<lambda>found.
                               case found of
                                 Some (x, p) \<Rightarrow> Inr (point (Some x) p (Some data) None)
                               | None \<Rightarrow>
                                   Inr (point None ''N/A'' None
                                          (Some ''All values are null'')))))
               | _ \<Rightarrow> Inr (point None ''N/A'' None (Some ''Invalid API response format'')))))"

subsection \<open>OECD (clients/oecd.py)\<close>

text \<open>
  \<open>next((d for d in dimensions if d.get("id") == "TIME_PERIOD"), None)\<close> over the
  elements of \<open>dimensions\<close>.
\<close>

fun find_time_dim :: "json list \<Rightarrow> exn + json option" where
  "find_time_dim [] = Inr None"
| "find_time_dim (d # ds) =
     and_then (py_get d ''id'' JNull) (\<lambda>i.
       if i = JStr ''TIME_PERIOD'' then Inr (Some d) else find_time_dim ds)"

text \<open>\<open>sorted(observations.keys())[-1]\<close>.\<close>

fun last_sorted_key :: "json \<Rightarrow> exn + string" where
  "last_sorted_key (JObj kvs) = seq_index (sort (map fst kvs)) (- 1)"
| "last_sorted_key JNull = Inl AttributeError"
| "last_sorted_key (JBool b) = Inl AttributeError"
| "last_sorted_key (JNum r) = Inl AttributeError"
| "last_sorted_key (JStr s) = Inl AttributeError"
| "last_sorted_key (JArr xs) = Inl AttributeError"

text \<open>
  The period of the observation \<open>last_key\<close>, still as a decoded JSON value:
  \<open>"N/A"\<close> unless the structure names a time dimension with values and the index read
  from the key is smaller than their number.
\<close>

definition oecd_period :: "(string \<Rightarrow> int option) \<Rightarrow> json \<Rightarrow> string \<Rightarrow> exn + json" where
  "oecd_period parse_int data last_key =
     and_then (py_get data ''structure'' (JObj [])) (\<lambda>structure.
     and_then (py_get structure ''dimensions'' (JObj [])) (\<lambda>dims.
     and_then (py_get dims ''observation'' (JArr [])) (\<lambda>dimensions.
     and_then (py_iter dimensions) (\<lambda>items.
     and_then (find_time_dim items) (\<lambda>time_dim.
       case time_dim of
         None \<Rightarrow> Inr (JStr ''N/A'')
       | Some td \<Rightarrow>
           if \<not> truthy td then Inr (JStr ''N/A'')
           else and_then (py_get td ''values'' JNull) (\<lambda>vals.
             if \<not> truthy vals then Inr (JStr ''N/A'')
             else and_then
                    (if CHR '':'' \<in> set last_key
                     then (case parse_int (rev (takeWhile (\<lambda>c. c \<noteq> CHR '':'') (rev last_key))) of
                             None \<Rightarrow> Inl ValueError
                           | Some i \<Rightarrow> Inr i)
                     else Inr 0) (\<lambda>period_idx.
                  and_then (py_getitem td ''values'') (\<lambda>vals2.
                  and_then (py_len vals2) (\<lambda>n.
                    if period_idx < n
                    then and_then (py_index vals2 period_idx) (\<lambda>entry.
                         py_get entry ''id'' (JStr ''N/A''))
                    else Inr (JStr ''N/A''))))))))))"

text \<open>\<open>OECDClient.fetch_metric\<close>.\<close>

definition OECDClient_fetch_metric ::
  "runtime \<Rightarrow> MetricType \<Rightarrow> string \<Rightarrow> int option \<Rightarrow> int option
     \<Rightarrow> request list \<times> (exn + MacroDataPoint)" where
  "OECDClient_fetch_metric rt metric country_code start_year end_year =
     (let country_info = dict_get COUNTRY_MAPPINGS country_code [(''name'', country_code)];
          oecd_country = dict_get country_info ''oecd'' country_code;
          point = make_point rt ''OECD'' metric country_info country_code;
          dataset_path = format_country (METRIC_MAPPINGS_oecd metric) oecd_country;
          params =
            [(''dimensionAtObservation'', JStr ''AllDimensions'')]
            @ (case start_year of
                 None \<Rightarrow> []
               | Some y \<Rightarrow> if y \<noteq> 0 then [(''startPeriod'', JStr (str_int y))] else [])
            @ (case end_year of
                 None \<Rightarrow> []
               | Some y \<Rightarrow> if y \<noteq> 0 then [(''endPeriod'', JStr (str_int y))] else []);
          headers = [(''Accept'', ''application/vnd.sdmx.data+json;version=1.0'')];
          req = \<lparr> req_url = ''https://sdmx.oecd.org/public/rest/data'' @ ''/'' @ dataset_path,
                  req_params = params, req_headers = headers \<rparr>
      in ([req],
          case http_get rt req of
            RequestException msg \<Rightarrow> Inr (point None ''N/A'' None (Some msg))
          | Response data \<Rightarrow>
              and_then (py_get data ''dataSets'' (JArr [])) (\<lambda>datasets.
                if \<not> truthy datasets
                then Inr (point None ''N/A'' None (Some ''No datasets in response''))
                else and_then (py_index datasets 0) (\<lambda>first.
                     and_then (py_get first ''observations'' (JObj [])) (\<lambda>observations.
                  if \<not> truthy observations
                  then Inr (point None ''N/A'' None (Some ''No observations in dataset''))
                  else and_then (last_sorted_key observations) (\<lambda>last_key.
                       and_then (py_getitem observations last_key) (\<lambda>row.
                       and_then (py_index row 0) (\<lambda>v.
                       and_then (oecd_period (int_of_str rt) data last_key) (\<lambda>period.
                       and_then (if v \<noteq> JNull
                                 then map_sum id Some (py_float (float_of_str rt) v)
                                 else Inr None) (\<lambda>x.
                       and_then (as_period period) (\<lambda>p.
                         Inr (point x p (Some data) None))))))))))))"

subsection \<open>The engine with its three clients\<close>

text \<open>
  \<open>TriangulationEngine.__init__\<close>: the engine built from a tolerance and the FRED key,
  with the three clients above.
\<close>

definition TriangulationEngine_init :: "runtime \<Rightarrow> real \<Rightarrow> string option \<Rightarrow> TriangulationEngine" where
  "TriangulationEngine_init rt tol fred_api_key =
     \<lparr> tolerance_percent = tol,
       fred_client = (\<lambda>m c s e. snd (FREDClient_fetch_metric rt fred_api_key m c s e)),
       worldbank_client = (\<lambda>m c s e. snd (WorldBankClient_fetch_metric rt m c s e)),
       oecd_client = (\<lambda>m c s e. snd (OECDClient_fetch_metric rt m c s e)) \<rparr>"

section \<open>Fixed inputs for the examples\<close>

text \<open>A data point as a client returns it for United States inflation.\<close>

definition data_point :: "string \<Rightarrow> real option \<Rightarrow> string \<Rightarrow> MacroDataPoint" where
  "data_point src v p =
     \<lparr> dp_source = src, dp_metric = ''inflation'', dp_country = ''United States'',
       dp_country_code = ''USA'', dp_value = v, dp_unit = ''percent'', dp_period = p,
       dp_retrieved_at = ''2024-06-01T00:00:00Z'', dp_raw_response = None,
       dp_error = (if v = None then Some ''No data available'' else None) \<rparr>"

text \<open>An engine whose three clients answer every request with a fixed data point.\<close>

definition fixed_engine ::
  "real \<Rightarrow> MacroDataPoint \<Rightarrow> MacroDataPoint \<Rightarrow> MacroDataPoint \<Rightarrow> TriangulationEngine" where
  "fixed_engine tol fd wd od =
     \<lparr> tolerance_percent = tol,
       fred_client = (\<lambda>_ _ _ _. Inr fd),
       worldbank_client = (\<lambda>_ _ _ _. Inr wd),
       oecd_client = (\<lambda>_ _ _ _. Inr od) \<rparr>"

subsection \<open>The period as the specification words it\<close>

text \<open>
  The greatest period other than \<open>"N/A"\<close> among the data points that carry a value,
  and \<open>"N/A"\<close> when there is none.
\<close>

definition contributing_period :: "MacroDataPoint list \<Rightarrow> string" where
  "contributing_period dps =
     (let ps = map dp_period
                 (filter (\<lambda>d. dp_value d \<noteq> None \<and> dp_period d \<noteq> ''N/A'') dps)
      in if ps = [] then ''N/A'' else Max (set ps))"

subsection \<open>Responses and a runtime for the examples\<close>

text \<open>An HTTP layer that answers every request with the same document.\<close>

definition respond_with :: "json \<Rightarrow> request \<Rightarrow> http_outcome" where
  "respond_with doc req = Response doc"



text \<open>A runtime with a fixed clock and the parsers of plain decimal literals.\<close>

definition sample_runtime :: "(request \<Rightarrow> http_outcome) \<Rightarrow> runtime" where
  "sample_runtime h =
     \<lparr> http_get = h, utc_now = ''2024-06-01T00:00:00Z'', current_year = 2024,
       float_of_str = decimal_float, int_of_str = decimal_int \<rparr>"

text \<open>FRED observations: a value that is not a number, and the value 3.4.\<close>

definition fred_non_numeric :: json where
  "fred_non_numeric =
     JObj [(''observations'',
            JArr [JObj [(''date'', JStr ''2024-01-01''), (''value'', JStr ''abc'')]])]"

definition fred_inflation :: json where
  "fred_inflation =
     JObj [(''observations'',
            JArr [JObj [(''date'', JStr ''2023-12-01''), (''value'', JStr ''3.4'')]])]"

text \<open>
  An SDMX-JSON document of the OECD whose only observation holds \<open>null\<close> and whose time
  dimension names the period 2024.
\<close>

definition oecd_null_latest :: json where
  "oecd_null_latest =
     JObj [(''dataSets'', JArr [JObj [(''observations'', JObj [(''0:0'', JArr [JNull])])]]),
           (''structure'',
            JObj [(''dimensions'',
                   JObj [(''observation'',
                          JArr [JObj [(''id'', JStr ''REF_AREA''),
                                      (''values'', JArr [JObj [(''id'', JStr ''USA'')]])],
                                JObj [(''id'', JStr ''TIME_PERIOD''),
                                      (''values'', JArr [JObj [(''id'', JStr ''2024'')]])]])])])]"

text \<open>
  An HTTP layer in which FRED answers with \<open>fred_inflation\<close>, the World Bank fails with
  a server error after its retries, and the OECD answers with \<open>oecd_null_latest\<close>.
\<close>

definition sample_http :: "request \<Rightarrow> http_outcome" where
  "sample_http req =
     (if take 27 (req_url req) = ''https://api.stlouisfed.org/'' then Response fred_inflation
      else if take 26 (req_url req) = ''https://api.worldbank.org/''
      then RequestException ''503 Server Error''
      else Response oecd_null_latest)"

text \<open>The data points the three clients build from these answers.\<close>

definition sample_fred_point :: MacroDataPoint where
  "sample_fred_point =
     \<lparr> dp_source = ''FRED'', dp_metric = ''inflation'', dp_country = ''United States'',
       dp_country_code = ''USA'', dp_value = Some 3.4, dp_unit = ''percent'',
       dp_period = ''2023-12-01'', dp_retrieved_at = ''2024-06-01T00:00:00Z'',
       dp_raw_response = Some fred_inflation, dp_error = None \<rparr>"

definition sample_worldbank_point :: MacroDataPoint where
  "sample_worldbank_point =
     \<lparr> dp_source = ''World Bank'', dp_metric = ''inflation'', dp_country = ''United States'',
       dp_country_code = ''USA'', dp_value = None, dp_unit = ''percent'',
       dp_period = ''N/A'', dp_retrieved_at = ''2024-06-01T00:00:00Z'',
       dp_raw_response = None, dp_error = Some ''503 Server Error'' \<rparr>"

definition sample_oecd_point :: MacroDataPoint where
  "sample_oecd_point =
     \<lparr> dp_source = ''OECD'', dp_metric = ''inflation'', dp_country = ''United States'',
       dp_country_code = ''USA'', dp_value = None, dp_unit = ''percent'',
       dp_period = ''2024'', dp_retrieved_at = ''2024-06-01T00:00:00Z'',
       dp_raw_response = Some oecd_null_latest, dp_error = None \<rparr>"

section \<open>Properties of the triangulation engine\<close>

subsection \<open>The result of a triangulation, field by field\<close>

lemma triangulate_returns:
  assumes "fred_client eng m cc sy ey = Inr fd"
      and "worldbank_client eng m cc sy ey = Inr wd"
      and "oecd_client eng m cc sy ey = Inr od"
  shows "triangulate eng m cc sy ey = Inr (triangulate_result (tolerance_percent eng) m cc fd wd od)"
  using assms by (simp add: triangulate_def)

lemma triangulate_InrD:
  assumes "triangulate eng m cc sy ey = Inr r"
  shows "\<exists>fd wd od. fred_client eng m cc sy ey = Inr fd \<and> worldbank_client eng m cc sy ey = Inr wd
           \<and> oecd_client eng m cc sy ey = Inr od
           \<and> r = triangulate_result (tolerance_percent eng) m cc fd wd od"
  using assms by (auto simp: triangulate_def split: sum.splits)

lemma tr_confidence_result:
  "tr_confidence (triangulate_result tol m cc fd wd od)
     = fst (determine_confidence tol (dp_value fd) (dp_value wd) (dp_value od))"
  by (simp add: triangulate_result_def Let_def split: prod.splits)

lemma tr_consensus_result:
  "tr_consensus_value (triangulate_result tol m cc fd wd od)
     = calculate_consensus (List.map_filter id [dp_value fd, dp_value wd, dp_value od])"
  by (simp add: triangulate_result_def Let_def split: prod.splits)

lemma tr_explanation_result:
  "tr_explanation (triangulate_result tol m cc fd wd od)
     = snd (determine_confidence tol (dp_value fd) (dp_value wd) (dp_value od))"
  by (simp add: triangulate_result_def Let_def split: prod.splits)

lemma tr_details_result:
  "tr_disagreement_details (triangulate_result tol m cc fd wd od)
     = (let ce = determine_confidence tol (dp_value fd) (dp_value wd) (dp_value od)
        in if fst ce = HIGH \<or> fst ce = MEDIUM then None else Some (snd ce))"
  by (simp add: triangulate_result_def Let_def split: prod.splits)

lemma tr_sources_result:
  "tr_sources_used (triangulate_result tol m cc fd wd od)
     = (if dp_value fd \<noteq> None then [''FRED''] else [])
       @ (if dp_value wd \<noteq> None then [''World Bank''] else [])
       @ (if dp_value od \<noteq> None then [''OECD''] else [])"
  by (simp add: triangulate_result_def Let_def split: prod.splits)

lemma tr_period_result:
  "tr_period (triangulate_result tol m cc fd wd od)
     = (case filter (\<lambda>p. p \<noteq> ''N/A'') [dp_period fd, dp_period wd, dp_period od] of
          [] \<Rightarrow> ''N/A'' | p # ps \<Rightarrow> foldl max p ps)"
  by (simp add: triangulate_result_def Let_def split: prod.splits)

lemma fixed_engine_sel [simp]:
  "tolerance_percent (fixed_engine tol fd wd od) = tol"
  "fred_client (fixed_engine tol fd wd od) m cc sy ey = Inr fd"
  "worldbank_client (fixed_engine tol fd wd od) m cc sy ey = Inr wd"
  "oecd_client (fixed_engine tol fd wd od) m cc sy ey = Inr od"
  by (simp_all add: fixed_engine_def)

lemma data_point_sel [simp]:
  "dp_value (data_point src v p) = v"
  "dp_period (data_point src v p) = p"
  by (simp_all add: data_point_def)

subsection \<open>Confidence by number of values and pairwise agreement\<close>

text \<open>
  Claim C1. The confidence label depends only on which provider values are present and
  on their pairwise agreement: no value gives \<open>NO_DATA\<close> and one value gives
  \<open>SINGLE_SOURCE\<close>, whatever the tolerance; two values give \<open>MEDIUM\<close> when they agree
  and \<open>LOW\<close> otherwise; three values give \<open>HIGH\<close> when all three pairs agree,
  \<open>MEDIUM\<close> when one or two pairs agree, and \<open>LOW\<close> when no pair agrees.
\<close>

theorem confidence_by_count:
  "fst (determine_confidence tol fred_val wb_val oecd_val) =
     (case List.map_filter id [fred_val, wb_val, oecd_val] of
        [] \<Rightarrow> NO_DATA
      | [a] \<Rightarrow> SINGLE_SOURCE
      | [a, b] \<Rightarrow> if values_agree tol a b then MEDIUM else LOW
      | a # b # c # _ \<Rightarrow>
          (let k = length (filter (\<lambda>(x, y). values_agree tol x y) [(a, b), (a, c), (b, c)])
           in if k = 3 then HIGH else if k = 1 \<or> k = 2 then MEDIUM else LOW))"
  by (cases fred_val; cases wb_val; cases oecd_val)
     (simp_all add: determine_confidence_def List.map_filter_simps Let_def)

subsection \<open>The agreement predicate\<close>

text \<open>
  Claim C2. Two values agree exactly when both are zero, or exactly one is zero and
  their absolute difference is at most the tolerance, or neither is zero and their
  difference relative to the mean of their magnitudes, in percent, is at most the
  tolerance.
\<close>

theorem values_agree_iff:
  "values_agree tol a b \<longleftrightarrow>
     (a = 0 \<and> b = 0)
     \<or> ((a = 0) \<noteq> (b = 0) \<and> \<bar>a - b\<bar> \<le> tol)
     \<or> (a \<noteq> 0 \<and> b \<noteq> 0 \<and> \<bar>a - b\<bar> / ((\<bar>a\<bar> + \<bar>b\<bar>) / 2) * 100 \<le> tol)"
  by (auto simp: values_agree_def Let_def)

subsection \<open>The consensus is the median\<close>

text \<open>
  Claim C3. For a non-empty list the consensus is the median: with \<open>s\<close> the values in
  ascending order, the middle element of \<open>s\<close> when the length is odd and the average of
  the two middle elements when it is even. Hence the consensus does not depend on the
  order of the values: every permutation of a list, and in particular the sorted list,
  has the same consensus.
\<close>

theorem consensus_is_median:
  "(xs \<noteq> [] \<and> sorted s \<and> mset s = mset xs \<longrightarrow>
      calculate_consensus xs =
        Some (if odd (length s) then s ! (length s div 2)
              else (s ! (length s div 2 - 1) + s ! (length s div 2)) / 2))
   \<and> (mset ys = mset xs \<longrightarrow> calculate_consensus ys = calculate_consensus xs)
   \<and> calculate_consensus (sort xs) = calculate_consensus xs"
proof (intro conjI impI)
  assume a: "xs \<noteq> [] \<and> sorted s \<and> mset s = mset xs"
  then have "sort xs = s"
    by (simp add: properties_for_sort)
  with a show "calculate_consensus xs =
        Some (if odd (length s) then s ! (length s div 2)
              else (s ! (length s div 2 - 1) + s ! (length s div 2)) / 2)"
    by (auto simp: calculate_consensus_def Let_def even_iff_mod_2_eq_zero)
next
  assume p: "mset ys = mset xs"
  then have "sort ys = sort xs"
    by (simp add: properties_for_sort)
  moreover from p have "ys = [] \<longleftrightarrow> xs = []"
    by (metis mset_zero_iff)
  ultimately show "calculate_consensus ys = calculate_consensus xs"
    by (simp add: calculate_consensus_def)
next
  have "sort (sort xs) = sort xs"
    by (simp add: sorted_sort_id)
  moreover have "sort xs = [] \<longleftrightarrow> xs = []"
    by (metis length_sort length_0_conv)
  ultimately show "calculate_consensus (sort xs) = calculate_consensus xs"
    by (simp add: calculate_consensus_def)
qed

theorem consensus_is_median_witness:
  "([3, 1, 2::real] \<noteq> [] \<and> sorted [1, 2, 3::real] \<and> mset [1, 2, 3::real] = mset [3, 1, 2])
   \<and> mset [2, 3, 1::real] = mset [3, 1, 2]
   \<and> calculate_consensus [3, 1, 2] = Some 2
   \<and> calculate_consensus [2, 3, 1] = calculate_consensus [3, 1, 2]"
  using consensus_is_median [of "[3, 1, 2]" "[1, 2, 3]" "[2, 3, 1]"] by simp

subsection \<open>Presence of the consensus value\<close>

text \<open>
  Claim C4. When the three clients return data points, \<open>triangulate\<close> returns a result
  whose consensus value is present if and only if at least one of the data points has a
  value; when none has a value, the confidence is \<open>NO_DATA\<close> and the consensus value
  is absent.
\<close>

theorem consensus_iff_value:
  assumes "fred_client eng m cc sy ey = Inr fd"
      and "worldbank_client eng m cc sy ey = Inr wd"
      and "oecd_client eng m cc sy ey = Inr od"
  shows "\<exists>r. triangulate eng m cc sy ey = Inr r
           \<and> (tr_consensus_value r \<noteq> None \<longleftrightarrow>
                dp_value fd \<noteq> None \<or> dp_value wd \<noteq> None \<or> dp_value od \<noteq> None)
           \<and> (dp_value fd = None \<and> dp_value wd = None \<and> dp_value od = None \<longrightarrow>
                tr_confidence r = NO_DATA \<and> tr_consensus_value r = None)"
proof -
  let ?r = "triangulate_result (tolerance_percent eng) m cc fd wd od"
  have "triangulate eng m cc sy ey = Inr ?r"
    using assms by (rule triangulate_returns)
  moreover have "tr_consensus_value ?r \<noteq> None \<longleftrightarrow>
                dp_value fd \<noteq> None \<or> dp_value wd \<noteq> None \<or> dp_value od \<noteq> None"
    by (cases "dp_value fd"; cases "dp_value wd"; cases "dp_value od")
       (simp_all add: tr_consensus_result List.map_filter_simps calculate_consensus_def Let_def)
  moreover have "dp_value fd = None \<and> dp_value wd = None \<and> dp_value od = None \<longrightarrow>
                tr_confidence ?r = NO_DATA \<and> tr_consensus_value ?r = None"
    by (simp add: tr_consensus_result tr_confidence_result List.map_filter_simps
          calculate_consensus_def determine_confidence_def)
  ultimately show ?thesis by blast
qed

theorem consensus_iff_value_witness:
  "\<exists>r. triangulate
          (fixed_engine (1 / 2) (data_point ''FRED'' None ''N/A'')
             (data_point ''World Bank'' None ''N/A'') (data_point ''OECD'' None ''N/A''))
          INFLATION ''USA'' None None = Inr r
       \<and> tr_consensus_value r = None \<and> tr_confidence r = NO_DATA"
proof -
  have "\<exists>r. triangulate
          (fixed_engine (1 / 2) (data_point ''FRED'' None ''N/A'')
             (data_point ''World Bank'' None ''N/A'') (data_point ''OECD'' None ''N/A''))
          INFLATION ''USA'' None None = Inr r
       \<and> (tr_consensus_value r \<noteq> None \<longleftrightarrow> False)
       \<and> (tr_confidence r = NO_DATA \<and> tr_consensus_value r = None)"
    using consensus_iff_value
      [of "fixed_engine (1 / 2) (data_point ''FRED'' None ''N/A'')
             (data_point ''World Bank'' None ''N/A'') (data_point ''OECD'' None ''N/A'')"
          INFLATION "''USA''" None None
          "data_point ''FRED'' None ''N/A''" "data_point ''World Bank'' None ''N/A''"
          "data_point ''OECD'' None ''N/A''"]
    by simp
  then show ?thesis by blast
qed

subsection \<open>Three values close to 2.50\<close>

text \<open>
  Claim C7 states that the values 2.50, 2.51 and 2.49 give confidence \<open>HIGH\<close> at
  tolerance 0.5. They do not: 2.51 and 2.49 differ by 0.8 percent of their mean, so only
  two of the three pairs agree.
\<close>

theorem all_agree_example_counterexample:
  "fst (determine_confidence (1 / 2) (Some 2.50) (Some 2.51) (Some 2.49)) \<noteq> HIGH"
  by (simp add: determine_confidence_def values_agree_def)

text \<open>
  Claim C7, amended. With tolerance 0.5, triangulating the values 2.50 (FRED), 2.51
  (World Bank) and 2.49 (OECD) yields confidence \<open>MEDIUM\<close> and the consensus value
  2.50, their median.
\<close>

theorem near_values_medium:
  assumes "tolerance_percent eng = 1 / 2"
      and "fred_client eng m cc sy ey = Inr fd"
      and "worldbank_client eng m cc sy ey = Inr wd"
      and "oecd_client eng m cc sy ey = Inr od"
      and "dp_value fd = Some 2.50" and "dp_value wd = Some 2.51" and "dp_value od = Some 2.49"
  shows "\<exists>r. triangulate eng m cc sy ey = Inr r
           \<and> tr_confidence r = MEDIUM \<and> tr_consensus_value r = Some 2.50"
proof -
  let ?r = "triangulate_result (tolerance_percent eng) m cc fd wd od"
  have "triangulate eng m cc sy ey = Inr ?r"
    using assms(2-4) by (rule triangulate_returns)
  moreover have "tr_confidence ?r = MEDIUM"
    using assms(1,5-7)
    by (simp add: tr_confidence_result determine_confidence_def values_agree_def)
  moreover have "tr_consensus_value ?r = Some 2.50"
    using assms(5-7)
    by (simp add: tr_consensus_result List.map_filter_simps calculate_consensus_def)
  ultimately show ?thesis by blast
qed

theorem near_values_medium_witness:
  "\<exists>r. triangulate
          (fixed_engine (1 / 2) (data_point ''FRED'' (Some 2.50) ''2024-01-01'')
             (data_point ''World Bank'' (Some 2.51) ''2023'')
             (data_point ''OECD'' (Some 2.49) ''2023''))
          INFLATION ''USA'' None None = Inr r
       \<and> tr_confidence r = MEDIUM \<and> tr_consensus_value r = Some 2.50"
  using near_values_medium
    [of "fixed_engine (1 / 2) (data_point ''FRED'' (Some 2.50) ''2024-01-01'')
           (data_point ''World Bank'' (Some 2.51) ''2023'')
           (data_point ''OECD'' (Some 2.49) ''2023'')"
        INFLATION "''USA''" None None
        "data_point ''FRED'' (Some 2.50) ''2024-01-01''"
        "data_point ''World Bank'' (Some 2.51) ''2023''"
        "data_point ''OECD'' (Some 2.49) ''2023''"]
  by simp

subsection \<open>Two sources that disagree\<close>

text \<open>
  Claim C8. With tolerance 0.5, when FRED yields 3.4, the World Bank yields 3.5 and the
  OECD yields no value, \<open>triangulate\<close> returns confidence \<open>LOW\<close>, the consensus value
  3.45 and the sources \<open>FRED\<close>, \<open>World Bank\<close> in this order.
\<close>

theorem two_sources_low:
  assumes "tolerance_percent eng = 1 / 2"
      and "fred_client eng m cc sy ey = Inr fd"
      and "worldbank_client eng m cc sy ey = Inr wd"
      and "oecd_client eng m cc sy ey = Inr od"
      and "dp_value fd = Some 3.4" and "dp_value wd = Some 3.5" and "dp_value od = None"
  shows "\<exists>r. triangulate eng m cc sy ey = Inr r
           \<and> tr_confidence r = LOW \<and> tr_consensus_value r = Some 3.45
           \<and> tr_sources_used r = [''FRED'', ''World Bank'']"
proof -
  let ?r = "triangulate_result (tolerance_percent eng) m cc fd wd od"
  have "triangulate eng m cc sy ey = Inr ?r"
    using assms(2-4) by (rule triangulate_returns)
  moreover have "tr_confidence ?r = LOW"
    using assms(1,5-7)
    by (simp add: tr_confidence_result determine_confidence_def values_agree_def)
  moreover have "tr_consensus_value ?r = Some 3.45"
    using assms(5-7)
    by (simp add: tr_consensus_result List.map_filter_simps calculate_consensus_def)
  moreover have "tr_sources_used ?r = [''FRED'', ''World Bank'']"
    using assms(5-7) by (simp add: tr_sources_result)
  ultimately show ?thesis by blast
qed

theorem two_sources_low_witness:
  "\<exists>r. triangulate
          (fixed_engine (1 / 2) (data_point ''FRED'' (Some 3.4) ''2024-01-01'')
             (data_point ''World Bank'' (Some 3.5) ''2023'')
             (data_point ''OECD'' None ''N/A''))
          INFLATION ''USA'' None None = Inr r
       \<and> tr_confidence r = LOW \<and> tr_consensus_value r = Some 3.45
       \<and> tr_sources_used r = [''FRED'', ''World Bank'']"
  using two_sources_low
    [of "fixed_engine (1 / 2) (data_point ''FRED'' (Some 3.4) ''2024-01-01'')
           (data_point ''World Bank'' (Some 3.5) ''2023'')
           (data_point ''OECD'' None ''N/A'')"
        INFLATION "''USA''" None None
        "data_point ''FRED'' (Some 3.4) ''2024-01-01''"
        "data_point ''World Bank'' (Some 3.5) ''2023''"
        "data_point ''OECD'' None ''N/A''"]
  by simp

subsection \<open>Disagreement details\<close>

text \<open>
  Claim C10. In every result that \<open>triangulate\<close> returns, the disagreement details are
  absent exactly when the confidence is \<open>HIGH\<close> or \<open>MEDIUM\<close>; for the confidences
  \<open>LOW\<close>, \<open>SINGLE_SOURCE\<close> and \<open>NO_DATA\<close> they are the explanation.
\<close>

theorem details_iff_confidence:
  assumes "triangulate eng m cc sy ey = Inr r"
  shows "(tr_disagreement_details r = None \<longleftrightarrow> tr_confidence r = HIGH \<or> tr_confidence r = MEDIUM)
         \<and> (tr_confidence r = LOW \<or> tr_confidence r = SINGLE_SOURCE \<or> tr_confidence r = NO_DATA
              \<longrightarrow> tr_disagreement_details r = Some (tr_explanation r))"
proof -
  from assms obtain fd wd od where
    r: "r = triangulate_result (tolerance_percent eng) m cc fd wd od"
    using triangulate_InrD by blast
  show ?thesis
    unfolding r
    by (simp add: tr_details_result tr_confidence_result tr_explanation_result Let_def)
qed

theorem details_iff_confidence_witness:
  "triangulate
     (fixed_engine (1 / 2) (data_point ''FRED'' (Some 3.4) ''2024-01-01'')
        (data_point ''World Bank'' (Some 3.5) ''2023'') (data_point ''OECD'' None ''N/A''))
     INFLATION ''USA'' None None
     = Inr (triangulate_result (1 / 2) INFLATION ''USA''
              (data_point ''FRED'' (Some 3.4) ''2024-01-01'')
              (data_point ''World Bank'' (Some 3.5) ''2023'') (data_point ''OECD'' None ''N/A''))
   \<and> tr_confidence
        (triangulate_result (1 / 2) INFLATION ''USA''
           (data_point ''FRED'' (Some 3.4) ''2024-01-01'')
           (data_point ''World Bank'' (Some 3.5) ''2023'') (data_point ''OECD'' None ''N/A''))
      = LOW
   \<and> tr_disagreement_details
        (triangulate_result (1 / 2) INFLATION ''USA''
           (data_point ''FRED'' (Some 3.4) ''2024-01-01'')
           (data_point ''World Bank'' (Some 3.5) ''2023'') (data_point ''OECD'' None ''N/A''))
      = Some (tr_explanation
                (triangulate_result (1 / 2) INFLATION ''USA''
                   (data_point ''FRED'' (Some 3.4) ''2024-01-01'')
                   (data_point ''World Bank'' (Some 3.5) ''2023'')
                   (data_point ''OECD'' None ''N/A'')))"
proof -
  let ?e = "fixed_engine (1 / 2) (data_point ''FRED'' (Some 3.4) ''2024-01-01'')
              (data_point ''World Bank'' (Some 3.5) ''2023'') (data_point ''OECD'' None ''N/A'')"
  let ?r = "triangulate_result (1 / 2) INFLATION ''USA''
              (data_point ''FRED'' (Some 3.4) ''2024-01-01'')
              (data_point ''World Bank'' (Some 3.5) ''2023'') (data_point ''OECD'' None ''N/A'')"
  have t: "triangulate ?e INFLATION ''USA'' None None = Inr ?r"
    by (simp add: triangulate_def)
  have c: "tr_confidence ?r = LOW"
    by (simp add: tr_confidence_result determine_confidence_def values_agree_def)
  from details_iff_confidence [OF t] c t show ?thesis
    by simp
qed

section \<open>Properties of the provider clients\<close>

subsection \<open>Evaluating the clients on the examples\<close>

lemmas parsers = decimal_float_def unsigned_float_def decimal_int_def decimal_nat_def
  is_digit_def digits_value_def

lemma sample_runtime_sel [simp]:
  "http_get (sample_runtime h) = h"
  "utc_now (sample_runtime h) = ''2024-06-01T00:00:00Z''"
  "current_year (sample_runtime h) = 2024"
  "float_of_str (sample_runtime h) = decimal_float"
  "int_of_str (sample_runtime h) = decimal_int"
  by (simp_all add: sample_runtime_def)

lemma engine_init_sel [simp]:
  "tolerance_percent (TriangulationEngine_init rt tol k) = tol"
  "fred_client (TriangulationEngine_init rt tol k) m c s e
     = snd (FREDClient_fetch_metric rt k m c s e)"
  "worldbank_client (TriangulationEngine_init rt tol k) m c s e
     = snd (WorldBankClient_fetch_metric rt m c s e)"
  "oecd_client (TriangulationEngine_init rt tol k) m c s e
     = snd (OECDClient_fetch_metric rt m c s e)"
  by (simp_all add: TriangulationEngine_init_def)

lemma make_point_sel [simp]:
  "dp_value (make_point rt src m ci cc v p raw err) = v"
  "dp_period (make_point rt src m ci cc v p raw err) = p"
  "dp_error (make_point rt src m ci cc v p raw err) = err"
  by (simp_all add: make_point_def)

lemma and_then_Inr_iff:
  "and_then m f = Inr y \<longleftrightarrow> (\<exists>x. m = Inr x \<and> f x = Inr y)"
  by (cases m) simp_all


lemma decimal_float_34: "decimal_float ''3.4'' = Some 3.4"
  by (simp add: parsers)

lemma oecd_path_usa:
  "format_country (METRIC_MAPPINGS_oecd INFLATION) ''USA'' = ''PRICES_CPI/CPALTT01.USA.GP.A''"
  by (simp add: format_country.simps)

lemma sample_fred:
  "snd (FREDClient_fetch_metric (sample_runtime sample_http) (Some ''key'')
          INFLATION ''USA'' None None) = Inr sample_fred_point"
  by (simp add: FREDClient_fetch_metric_def sample_http_def Let_def
        COUNTRY_MAPPINGS_def dict_get_def make_point_def fred_inflation_def decimal_float_34
        sample_fred_point_def)

lemma sample_worldbank:
  "snd (WorldBankClient_fetch_metric (sample_runtime sample_http)
          INFLATION ''USA'' None None) = Inr sample_worldbank_point"
  by (simp add: WorldBankClient_fetch_metric_def sample_http_def Let_def
        COUNTRY_MAPPINGS_def dict_get_def make_point_def sample_worldbank_point_def)

lemma sample_oecd:
  "snd (OECDClient_fetch_metric (sample_runtime sample_http)
          INFLATION ''USA'' None None) = Inr sample_oecd_point"
  by (simp add: OECDClient_fetch_metric_def sample_http_def Let_def oecd_period_def
        COUNTRY_MAPPINGS_def dict_get_def make_point_def oecd_null_latest_def parsers
        seq_index_def sample_oecd_point_def oecd_path_usa)

subsection \<open>What the clients do with a failed request\<close>

text \<open>
  An exception of class \<open>RequestException\<close> never leaves a client: it becomes a data
  point without a value whose \<open>error\<close> is the message of the exception.
\<close>

lemma request_exception_converted:
  assumes "\<And>req. http_get rt req = RequestException msg"
  shows "\<exists>d. snd (FREDClient_fetch_metric rt key metric cc sy ey) = Inr d
              \<and> dp_value d = None \<and> dp_error d = Some msg"
    and "\<exists>d. snd (WorldBankClient_fetch_metric rt metric cc sy ey) = Inr d
              \<and> dp_value d = None \<and> dp_error d = Some msg"
    and "\<exists>d. snd (OECDClient_fetch_metric rt metric cc sy ey) = Inr d
              \<and> dp_value d = None \<and> dp_error d = Some msg"
  using assms
  by (simp_all add: FREDClient_fetch_metric_def WorldBankClient_fetch_metric_def
        OECDClient_fetch_metric_def Let_def make_point_def)

text \<open>
  A data point of the FRED or World Bank client that has no value has the period
  \<open>"N/A"\<close>.
\<close>

lemma fred_no_value_no_period:
  assumes "snd (FREDClient_fetch_metric rt key m cc sy ey) = Inr d" and "dp_value d = None"
  shows "dp_period d = ''N/A''"
  using assms
  by (auto simp: FREDClient_fetch_metric_def Let_def and_then_Inr_iff
      split: http_outcome.splits if_splits option.splits)

lemma worldbank_no_value_no_period:
  assumes "snd (WorldBankClient_fetch_metric rt m cc sy ey) = Inr d" and "dp_value d = None"
  shows "dp_period d = ''N/A''"
  using assms
  by (auto simp: WorldBankClient_fetch_metric_def Let_def and_then_Inr_iff
      split: http_outcome.splits if_splits option.splits json.splits)

subsection \<open>Metric and country pairs without a mapping\<close>

text \<open>The methods that take the table as an argument are the methods of the client.\<close>

lemma fetch_metric_in_actual:
  "FREDClient_fetch_metric_in METRIC_MAPPINGS_fred rt key metric cc sy ey
     = FREDClient_fetch_metric rt key metric cc sy ey"
  by (simp add: FREDClient_fetch_metric_in_def FREDClient_fetch_metric_def
        FREDClient_get_series_id_in_def FREDClient_get_series_id_def)






subsection \<open>Responses the clients cannot parse\<close>

text \<open>
  Claim C6 states that no exception leaves \<open>fetch_metric\<close>, parse failures included.
  The clients catch \<open>RequestException\<close> only: an observation value that is not a number
  makes the FRED client raise \<open>ValueError\<close>, and a response that is a JSON list makes
  the OECD client raise \<open>AttributeError\<close>.
\<close>

theorem parse_failure_propagates:
  "snd (FREDClient_fetch_metric (sample_runtime (respond_with fred_non_numeric)) (Some ''key'')
          INFLATION ''USA'' None None) = Inl ValueError
   \<and> snd (OECDClient_fetch_metric (sample_runtime (respond_with (JArr [])))
          INFLATION ''USA'' None None) = Inl AttributeError"
  by (simp add: FREDClient_fetch_metric_def OECDClient_fetch_metric_def respond_with_def
        Let_def fred_non_numeric_def parsers)

subsection \<open>The period of the result\<close>

text \<open>
  Claim C9. The period of the result is the greatest period other than \<open>"N/A"\<close> among
  the data points that contributed a value. The code breaks it when the latest
  observation of the OECD is \<open>null\<close>: the OECD client returns a data point without a
  value that carries the period of that observation, where every other return without a
  value carries \<open>"N/A"\<close>, and \<open>triangulate\<close> selects among the periods of all three
  data points. With the answers of \<open>sample_http\<close> only FRED contributes a value, for the
  period 2023-12-01, and the result carries the period 2024.
\<close>

theorem period_of_valueless_point:
  "triangulate (TriangulationEngine_init (sample_runtime sample_http) (1 / 2) (Some ''key''))
       INFLATION ''USA'' None None
     = Inr (triangulate_result (1 / 2) INFLATION ''USA''
              sample_fred_point sample_worldbank_point sample_oecd_point)
   \<and> tr_period (triangulate_result (1 / 2) INFLATION ''USA''
                  sample_fred_point sample_worldbank_point sample_oecd_point) = ''2024''
   \<and> tr_sources_used (triangulate_result (1 / 2) INFLATION ''USA''
                  sample_fred_point sample_worldbank_point sample_oecd_point) = [''FRED'']
   \<and> contributing_period [sample_fred_point, sample_worldbank_point, sample_oecd_point]
       = ''2023-12-01''"
proof -
  have "triangulate (TriangulationEngine_init (sample_runtime sample_http) (1 / 2) (Some ''key''))
       INFLATION ''USA'' None None
     = Inr (triangulate_result (1 / 2) INFLATION ''USA''
              sample_fred_point sample_worldbank_point sample_oecd_point)"
    by (simp add: triangulate_def sample_fred sample_worldbank sample_oecd)
  moreover have "tr_period (triangulate_result (1 / 2) INFLATION ''USA''
                  sample_fred_point sample_worldbank_point sample_oecd_point) = ''2024''"
    by (simp add: tr_period_result sample_fred_point_def sample_worldbank_point_def
          sample_oecd_point_def)
  moreover have "tr_sources_used (triangulate_result (1 / 2) INFLATION ''USA''
                  sample_fred_point sample_worldbank_point sample_oecd_point) = [''FRED'']"
    by (simp add: tr_sources_result sample_fred_point_def sample_worldbank_point_def
          sample_oecd_point_def del: not_None_eq)
  moreover have
    "contributing_period [sample_fred_point, sample_worldbank_point, sample_oecd_point]
       = ''2023-12-01''"
    by (simp add: contributing_period_def sample_fred_point_def sample_worldbank_point_def
          sample_oecd_point_def del: not_None_eq)
  ultimately show ?thesis by simp
qed

end
